theory Spec2Isabelle
  imports Main "HOL-Library.AList"
begin

section \<open>Data model\<close>

text \<open>
  The sources are two annotated listings: koa-router's \<^verbatim>\<open>router.js\<close> followed by koa's
  \<^verbatim>\<open>application.js\<close>, and redux's \<^verbatim>\<open>applyMiddleware.js\<close>. Objects that the JavaScript
  shares by reference (layers, routers) live in an explicit store and are named by
  addresses; everything a function mutates is passed in and returned.
\<close>

type_synonym addr = nat
type_synonym rid = nat

text \<open>What a \<^verbatim>\<open>throw\<close> carries: the error's constructor and its message.\<close>

datatype js_error =
    Error string
  | TypeError string
  | NotImplemented
  | MethodNotAllowed
  | Custom string

text \<open>JavaScript truthiness of a value that is a string or \<^verbatim>\<open>undefined\<close>/\<^verbatim>\<open>null\<close>.\<close>

fun truthy :: "string option \<Rightarrow> bool" where
  "truthy None = False"
| "truthy (Some s) = (s \<noteq> [])"

text \<open>
  The body of a response, as \<^verbatim>\<open>respond\<close> tells the cases apart: \<^verbatim>\<open>null\<close>/\<^verbatim>\<open>undefined\<close>, a
  string, a Buffer, a Stream (named), any other object. An object is held as what
  \<^verbatim>\<open>JSON.stringify\<close> makes of it: its JSON text, or \<open>None\<close> when \<^verbatim>\<open>JSON.stringify\<close> throws
  (a circular structure).
\<close>

datatype body = BNull | BString string | BBuffer string | BStream string | BObject "string option"


text \<open>What \<^verbatim>\<open>respond\<close> does to the node response: \<^verbatim>\<open>res.end()\<close>, \<^verbatim>\<open>res.end(body)\<close> or
  \<^verbatim>\<open>body.pipe(res)\<close>.\<close>

datatype res_write = End | EndWith string | Pipe string

text \<open>
  The request context, with the fields the listings read and write. \<^verbatim>\<open>ctx.status\<close> and
  \<^verbatim>\<open>ctx.res.statusCode\<close> are one field (the context delegates the one to the other);
  \<^verbatim>\<open>undefined\<close> is \<open>None\<close>. \<open>ctx_matched\<close> holds references to layers.
\<close>

record ctx =
  ctx_method :: string
  ctx_path :: string
  ctx_routerPath :: "string option"
  ctx_matched :: "addr list option"
  ctx_router :: "rid option"
  ctx_captures :: "string list option"
  ctx_params :: "(string \<times> string) list option"
  ctx_routerName :: "string option"
  ctx_matchedRoute :: "string option"
  ctx_matchedRouteName :: "string option"
  ctx_status :: "nat option"
  ctx_body :: body
  ctx_header :: "(string \<times> string) list"
  ctx_message :: string
  ctx_respond :: "bool option"
  ctx_writable :: bool
  ctx_headersSent :: bool
  ctx_type :: "string option"
  ctx_length :: "nat option"
  ctx_finished_listeners :: nat
  ctx_written :: "res_write list"

text \<open>A middleware \<^verbatim>\<open>(ctx, next) => ...\<close>: it gets the context as it is now and the
  continuation, and yields what its promise settles to.\<close>

type_synonym 'r middleware = "ctx \<Rightarrow> (ctx \<Rightarrow> 'r) \<Rightarrow> 'r"

text \<open>A parameter middleware \<^verbatim>\<open>(value, ctx, next) => ...\<close>.\<close>

type_synonym 'r param_middleware = "string \<Rightarrow> ctx \<Rightarrow> (ctx \<Rightarrow> 'r) \<Rightarrow> 'r"

text \<open>The options object \<^verbatim>\<open>register\<close> builds for \<^verbatim>\<open>new Layer\<close>.\<close>

record layer_opts =
  lo_end :: bool
  lo_name :: "string option"
  lo_sensitive :: bool
  lo_strict :: bool
  lo_prefix :: string
  lo_ignoreCaptures :: "bool option"

text \<open>
  A Layer object. \<open>l_regexp\<close> is the compiled matcher, as the set of paths
  \<^verbatim>\<open>this.regexp.test\<close> accepts.
\<close>

record 'r layer =
  l_opts :: layer_opts
  l_name :: "string option"
  l_methods :: "string list"
  l_paramNames :: "string list"
  l_stack :: "'r middleware list"
  l_path :: string
  l_regexp :: "string \<Rightarrow> bool"

text \<open>\<^verbatim>\<open>Layer.prototype.match = function (path) { return this.regexp.test(path); }\<close>\<close>

definition Layer_match :: "'r layer \<Rightarrow> string \<Rightarrow> bool" where
  "Layer_match layer path = l_regexp layer path"

section \<open>Routers\<close>

text \<open>The options object of a router, \<^verbatim>\<open>this.opts\<close>.\<close>

record router_opts =
  ro_prefix :: "string option"
  ro_routerPath :: "string option"
  ro_sensitive :: bool
  ro_strict :: bool
  ro_methods :: "string list option"

text \<open>
  A Router object. \<open>r_params\<close> is the object \<^verbatim>\<open>this.params\<close>, as its own properties in
  the order \<^verbatim>\<open>Object.keys\<close> lists them (insertion order; assigning to a key that exists
  keeps its place). \<open>r_stack\<close> is the array of layer references.
\<close>

record 'r router =
  r_opts :: router_opts
  r_methods :: "string list"
  r_params :: "(string \<times> 'r param_middleware) list"
  r_stack :: "addr list"

text \<open>\<^verbatim>\<open>function Router(opts)\<close>\<close>

definition Router_new :: "router_opts \<Rightarrow> 'r router" where
  "Router_new opts =
     \<lparr>r_opts = opts,
      r_methods = (case ro_methods opts of
                     Some ms \<Rightarrow> ms
                   | None \<Rightarrow> [''HEAD'', ''OPTIONS'', ''GET'', ''PUT'', ''PATCH'', ''POST'', ''DELETE'']),
      r_params = [],
      r_stack = []\<rparr>"

section \<open>Router.prototype.match\<close>

record matched =
  m_path :: "addr list"
  m_pathAndMethod :: "addr list"
  m_route :: bool

text \<open>\<^verbatim>\<open>~xs.indexOf(x)\<close> is non-zero exactly when \<^verbatim>\<open>x\<close> is an element of \<^verbatim>\<open>xs\<close>.\<close>

definition indexOf_found :: "string list \<Rightarrow> string \<Rightarrow> bool" where
  "indexOf_found xs x = (x \<in> set xs)"

text \<open>One turn of the \<^verbatim>\<open>for\<close> loop of \<^verbatim>\<open>match\<close>, on the layer at the current index.\<close>

definition match_step ::
  "(addr \<Rightarrow> 'r layer) \<Rightarrow> string \<Rightarrow> string \<Rightarrow> addr \<Rightarrow> matched \<Rightarrow> matched" where
  "match_step store path method a matched =
     (let layer = store a in
      if Layer_match layer path then
        let matched1 = matched\<lparr>m_path := m_path matched @ [a]\<rparr> in
        if length (l_methods layer) = 0 \<or> indexOf_found (l_methods layer) method then
          let matched2 = matched1\<lparr>m_pathAndMethod := m_pathAndMethod matched1 @ [a]\<rparr> in
          if length (l_methods layer) \<noteq> 0 then matched2\<lparr>m_route := True\<rparr> else matched2
        else matched1
      else matched)"

fun match_loop ::
  "(addr \<Rightarrow> 'r layer) \<Rightarrow> string \<Rightarrow> string \<Rightarrow> addr list \<Rightarrow> matched \<Rightarrow> matched" where
  "match_loop store path method [] matched = matched"
| "match_loop store path method (a # layers) matched =
     match_loop store path method layers (match_step store path method a matched)"

definition Router_match ::
  "(addr \<Rightarrow> 'r layer) \<Rightarrow> 'r router \<Rightarrow> string \<Rightarrow> string \<Rightarrow> matched" where
  "Router_match store router path method =
     match_loop store path method (r_stack router)
       \<lparr>m_path = [], m_pathAndMethod = [], m_route = False\<rparr>"

section \<open>Router.prototype.route and Router.prototype.url\<close>

text \<open>The \<^verbatim>\<open>for\<close> loop of \<^verbatim>\<open>route\<close>; \<open>None\<close> is its \<^verbatim>\<open>return false\<close>.\<close>

fun route_loop :: "(addr \<Rightarrow> 'r layer) \<Rightarrow> string \<Rightarrow> addr list \<Rightarrow> addr option" where
  "route_loop store name [] = None"
| "route_loop store name (a # routes) =
     (if truthy (l_name (store a)) \<and> l_name (store a) = Some name then Some a
      else route_loop store name routes)"

definition Router_route :: "(addr \<Rightarrow> 'r layer) \<Rightarrow> 'r router \<Rightarrow> string \<Rightarrow> addr option" where
  "Router_route store router name = route_loop store name (r_stack router)"

text \<open>What \<^verbatim>\<open>url\<close> hands back: a string, or an Error object as an ordinary value.\<close>

datatype returned = RString string | RError js_error

text \<open>
  \<^verbatim>\<open>Layer.prototype.url\<close> is not part of the listings: it is the parameter \<open>layer_url\<close>,
  from the layer and the remaining arguments to what it returns (\<open>Inr\<close>) or throws
  (\<open>Inl\<close>).
\<close>

definition Router_url ::
  "('r layer \<Rightarrow> 'args \<Rightarrow> js_error + returned) \<Rightarrow> (addr \<Rightarrow> 'r layer) \<Rightarrow> 'r router \<Rightarrow>
     string \<Rightarrow> 'args \<Rightarrow> js_error + returned" where
  "Router_url layer_url store router name args =
     (case Router_route store router name of
        Some a \<Rightarrow> layer_url (store a) args
      | None \<Rightarrow> Inr (RError (Error (''No route found for name: '' @ name))))"

section \<open>Composition of middleware\<close>

text \<open>
  Modelled from the spec: \<^verbatim>\<open>koa-compose\<close> is required by both listings and is not among
  them. Handler \<open>i\<close> receives a continuation that runs handler \<open>i + 1\<close>, or the final
  \<open>next\<close> after the last one; with no handler the composed function is \<open>next\<close> itself.
  A handler that never calls its continuation ends the chain there. The guard against
  calling the continuation twice is not modelled.
\<close>

fun compose :: "'r middleware list \<Rightarrow> 'r middleware" where
  "compose [] ctx next = next ctx"
| "compose (fn # fns) ctx next = fn ctx (\<lambda>ctx'. compose fns ctx' next)"

section \<open>Router.prototype.routes\<close>

text \<open>\<^verbatim>\<open>a || d\<close> where \<^verbatim>\<open>d\<close> is a string.\<close>

definition or_string :: "string option \<Rightarrow> string \<Rightarrow> string" where
  "or_string a d = (case a of None \<Rightarrow> d | Some s \<Rightarrow> if s \<noteq> [] then s else d)"

text \<open>
  The function pushed for each matched layer. \<^verbatim>\<open>Layer.prototype.captures\<close> and
  \<^verbatim>\<open>Layer.prototype.params\<close> are not part of the listings: they are the parameters
  \<open>layer_captures\<close> and \<open>layer_params\<close>.
\<close>

type_synonym 'r layer_captures = "'r layer \<Rightarrow> string \<Rightarrow> string list option \<Rightarrow> string list option"
type_synonym 'r layer_params =
  "'r layer \<Rightarrow> string \<Rightarrow> string list option \<Rightarrow> (string \<times> string) list option \<Rightarrow>
     (string \<times> string) list option"

definition bind_params ::
  "'r layer_captures \<Rightarrow> 'r layer_params \<Rightarrow> 'r layer \<Rightarrow> string \<Rightarrow> 'r middleware" where
  "bind_params layer_captures layer_params layer path ctx next =
     (let ctx1 = ctx\<lparr>ctx_captures := layer_captures layer path (ctx_captures ctx)\<rparr>;
          ctx2 = ctx1\<lparr>ctx_params := layer_params layer path (ctx_captures ctx1) (ctx_params ctx1)\<rparr>;
          ctx3 = ctx2\<lparr>ctx_routerName := l_name layer\<rparr>
      in next ctx3)"

text \<open>\<^verbatim>\<open>matchedLayers.reduce(function(memo, layer) {...}, [])\<close>\<close>

definition layerChain ::
  "'r layer_captures \<Rightarrow> 'r layer_params \<Rightarrow> (addr \<Rightarrow> 'r layer) \<Rightarrow> string \<Rightarrow> addr list \<Rightarrow>
     'r middleware list" where
  "layerChain layer_captures layer_params store path matchedLayers =
     foldl (\<lambda>memo a.
              (memo @ [bind_params layer_captures layer_params (store a) path]) @ l_stack (store a))
       [] matchedLayers"

text \<open>
  The function \<^verbatim>\<open>dispatch\<close> that \<^verbatim>\<open>routes\<close> returns, for the router at \<open>self\<close>. Reading
  \<^verbatim>\<open>.path\<close> of the last element of an empty array throws a TypeError.
\<close>

definition dispatch ::
  "'r layer_captures \<Rightarrow> 'r layer_params \<Rightarrow> (addr \<Rightarrow> 'r layer) \<Rightarrow> rid \<Rightarrow> 'r router \<Rightarrow>
     ctx \<Rightarrow> (ctx \<Rightarrow> 'r) \<Rightarrow> js_error + 'r" where
  "dispatch layer_captures layer_params store self router ctx next =
     (let path = or_string (ro_routerPath (r_opts router))
                   (or_string (ctx_routerPath ctx) (ctx_path ctx));
          matched = Router_match store router path (ctx_method ctx);
          ctx1 = (case ctx_matched ctx of
                    Some ms \<Rightarrow> ctx\<lparr>ctx_matched := Some (ms @ m_path matched)\<rparr>
                  | None \<Rightarrow> ctx\<lparr>ctx_matched := Some (m_path matched)\<rparr>);
          ctx2 = ctx1\<lparr>ctx_router := Some self\<rparr>
      in if \<not> m_route matched then Inr (next ctx2)
         else
           let matchedLayers = m_pathAndMethod matched in
           if matchedLayers = [] then
             Inl (TypeError ''Cannot read properties of undefined (reading 'path')'')
           else
             let mostSpecificLayer = store (last matchedLayers);
                 ctx3 = ctx2\<lparr>ctx_matchedRoute := Some (l_path mostSpecificLayer)\<rparr>;
                 ctx4 = (if truthy (l_name mostSpecificLayer)
                         then ctx3\<lparr>ctx_matchedRouteName := l_name mostSpecificLayer\<rparr>
                         else ctx3)
             in Inr (compose (layerChain layer_captures layer_params store path matchedLayers)
                       ctx4 next))"

section \<open>Router.prototype.allowedMethods\<close>

text \<open>What a promise settles to, with the context as the handlers left it.\<close>

datatype completion = Resolved ctx | Rejected js_error ctx

record allowed_options =
  ao_throw :: bool
  ao_notImplemented :: "js_error option"
  ao_methodNotAllowed :: "js_error option"













section \<open>The application: respond and handleRequest\<close>








section \<open>Registration: register, param and use\<close>

text \<open>
  Registration mutates routers and layers that several places refer to, so both live in
  a store: \<open>w_layers\<close> and \<open>w_routers\<close> give the object at an address, and \<open>w_fresh\<close> is the
  address the next \<^verbatim>\<open>new Layer\<close> gets.
\<close>

record 'r world =
  w_layers :: "addr \<Rightarrow> 'r layer"
  w_routers :: "rid \<Rightarrow> 'r router"
  w_fresh :: addr

text \<open>
  \<^verbatim>\<open>./layer\<close> is required and is not part of the listings. Its constructor and the two
  methods that registration calls are parameters: \<open>Layer_new path methods middleware opts\<close>
  is the new object, \<open>Layer_setPrefix prefix\<close> and \<open>Layer_param name handler\<close> are what the
  methods do to the object they are called on. The constructor takes one middleware
  function or an array of them: \<open>middleware\<close> is the list of the handlers, one handler
  for a single function.
\<close>

record 'r Layer_proto =
  Layer_new :: "string \<Rightarrow> string list \<Rightarrow> 'r middleware list \<Rightarrow> layer_opts \<Rightarrow> 'r layer"
  Layer_setPrefix :: "string \<Rightarrow> 'r layer \<Rightarrow> 'r layer"
  Layer_param :: "string \<Rightarrow> 'r param_middleware \<Rightarrow> 'r layer \<Rightarrow> 'r layer"

text \<open>The \<^verbatim>\<open>opts\<close> argument of \<^verbatim>\<open>register\<close>; a property that is not given is \<open>None\<close>.\<close>

record register_opts =
  go_end :: "bool option"
  go_name :: "string option"
  go_sensitive :: "bool option"
  go_strict :: "bool option"
  go_prefix :: "string option"
  go_ignoreCaptures :: "bool option"

text \<open>\<^verbatim>\<open>if (x) obj.setPrefix(x)\<close>, for \<^verbatim>\<open>x\<close> a string or \<^verbatim>\<open>undefined\<close>.\<close>

definition setPrefix_if :: "'r Layer_proto \<Rightarrow> string option \<Rightarrow> 'r layer \<Rightarrow> 'r layer" where
  "setPrefix_if L x layer =
     (case x of
        None \<Rightarrow> layer
      | Some s \<Rightarrow> if s \<noteq> [] then Layer_setPrefix L s layer else layer)"

text \<open>
  \<^verbatim>\<open>Object.keys(this.params).forEach(function (param) { route.param(param,
  this.params[param]); }, this)\<close>
\<close>

definition attach_params ::
  "'r Layer_proto \<Rightarrow> (string \<times> 'r param_middleware) list \<Rightarrow> 'r layer \<Rightarrow> 'r layer" where
  "attach_params L params route = fold (\<lambda>(param, mw) r. Layer_param L param mw r) params route"

text \<open>
  \<^verbatim>\<open>register(path, methods, middleware, opts)\<close> for a path that is a string, on the
  router at \<open>self\<close>; it yields the address of the layer it made.
\<close>

definition register_path ::
  "'r Layer_proto \<Rightarrow> rid \<Rightarrow> string \<Rightarrow> string list \<Rightarrow> 'r middleware list \<Rightarrow> register_opts \<Rightarrow>
     'r world \<Rightarrow> 'r world \<times> addr" where
  "register_path L self path methods middleware opts W =
     (let router = w_routers W self;
          route = Layer_new L path methods middleware
                    \<lparr>lo_end = (if go_end opts = Some False then False else True),
                     lo_name = go_name opts,
                     lo_sensitive = (go_sensitive opts = Some True \<or> ro_sensitive (r_opts router)),
                     lo_strict = (go_strict opts = Some True \<or> ro_strict (r_opts router)),
                     lo_prefix = or_string (go_prefix opts)
                                   (or_string (ro_prefix (r_opts router)) ''''),
                     lo_ignoreCaptures = go_ignoreCaptures opts\<rparr>;
          route1 = setPrefix_if L (ro_prefix (r_opts router)) route;
          route2 = attach_params L (r_params router) route1;
          a = w_fresh W
      in (W\<lparr>w_layers := (w_layers W)(a := route2),
            w_routers := (w_routers W)(self := router\<lparr>r_stack := r_stack router @ [a]\<rparr>),
            w_fresh := Suc a\<rparr>, a))"

text \<open>The first argument of \<^verbatim>\<open>register\<close>: a path or an array of paths.\<close>

datatype path_arg = Path string | Paths "string list"

text \<open>\<^verbatim>\<open>register\<close>; for an array of paths it registers each and returns the router.\<close>

definition Router_register ::
  "'r Layer_proto \<Rightarrow> rid \<Rightarrow> path_arg \<Rightarrow> string list \<Rightarrow> 'r middleware list \<Rightarrow> register_opts \<Rightarrow>
     'r world \<Rightarrow> 'r world \<times> addr option" where
  "Router_register L self path methods middleware opts W =
     (case path of
        Paths ps \<Rightarrow>
          (fold (\<lambda>p W'. fst (register_path L self p methods middleware opts W')) ps W, None)
      | Path p \<Rightarrow>
          (let (W', a) = register_path L self p methods middleware opts W in (W', Some a)))"

text \<open>\<^verbatim>\<open>route.param(param, middleware)\<close> on the object at \<open>a\<close>.\<close>

definition layer_param_at ::
  "'r Layer_proto \<Rightarrow> string \<Rightarrow> 'r param_middleware \<Rightarrow> addr \<Rightarrow> 'r world \<Rightarrow> 'r world" where
  "layer_param_at L param mw a W =
     W\<lparr>w_layers := (w_layers W)(a := Layer_param L param mw (w_layers W a))\<rparr>"

text \<open>\<^verbatim>\<open>Router.prototype.param\<close>, on the router at \<open>self\<close>.\<close>

definition Router_param ::
  "'r Layer_proto \<Rightarrow> rid \<Rightarrow> string \<Rightarrow> 'r param_middleware \<Rightarrow> 'r world \<Rightarrow> 'r world" where
  "Router_param L self param mw W =
     (let router = w_routers W self;
          W1 = W\<lparr>w_routers := (w_routers W)
                  (self := router\<lparr>r_params := AList.update param mw (r_params router)\<rparr>)\<rparr>
      in fold (layer_param_at L param mw) (r_stack (w_routers W1 self)) W1)"

text \<open>
  An argument of \<^verbatim>\<open>use\<close> after the path: a middleware function, or the \<^verbatim>\<open>dispatch\<close>
  function that \<^verbatim>\<open>routes()\<close> of the router at \<open>s\<close> returned (its property \<^verbatim>\<open>router\<close> is
  that router).
\<close>

datatype 'r use_arg = Fn "'r middleware" | Routes rid

text \<open>The body of \<^verbatim>\<open>m.router.stack.forEach\<close>, for the nested layer at \<open>a\<close>.\<close>

definition splice_layer :: "'r Layer_proto \<Rightarrow> rid \<Rightarrow> string option \<Rightarrow> addr \<Rightarrow> 'r world \<Rightarrow> 'r world" where
  "splice_layer L self path a W =
     (let W1 = W\<lparr>w_layers := (w_layers W)(a := setPrefix_if L path (w_layers W a))\<rparr>;
          router = w_routers W1 self;
          W2 = W1\<lparr>w_layers := (w_layers W1)
                  (a := setPrefix_if L (ro_prefix (r_opts router)) (w_layers W1 a))\<rparr>
      in W2\<lparr>w_routers := (w_routers W2)(self := router\<lparr>r_stack := r_stack router @ [a]\<rparr>)\<rparr>)"

text \<open>
  The body of \<^verbatim>\<open>middleware.forEach\<close> in \<^verbatim>\<open>use\<close>, for one argument. \<^verbatim>\<open>forEach\<close> visits
  the elements the array had when the loop began, and \<^verbatim>\<open>Object.keys\<close> lists the keys
  there were then; \<^verbatim>\<open>param\<close> on the sub-router leaves the mounting router's entry for
  the key as it was, so the handler read at each turn is the one listed.
\<close>

definition use_middleware ::
  "'r Layer_proto \<Rightarrow> rid \<Rightarrow> string option \<Rightarrow> bool \<Rightarrow> 'r use_arg \<Rightarrow> 'r world \<Rightarrow> 'r world" where
  "use_middleware L self path hasPath m W =
     (case m of
        Routes s \<Rightarrow>
          (let W1 = fold (splice_layer L self path) (r_stack (w_routers W s)) W
           in fold (\<lambda>(key, mw) W'. Router_param L s key mw W')
                (r_params (w_routers W1 self)) W1)
      | Fn f \<Rightarrow>
          fst (Router_register L self (Path (or_string path ''(.*)'')) [] [f]
                 \<lparr>go_end = Some False, go_name = None, go_sensitive = None, go_strict = None,
                  go_prefix = None, go_ignoreCaptures = Some (\<not> hasPath)\<rparr> W))"

text \<open>
  What \<^verbatim>\<open>use\<close> is called with before the middlewares: nothing, a path, or an array of
  paths. An empty array is not an array of paths: \<^verbatim>\<open>use\<close> then treats it as a
  middleware, and it is registered as a layer with no handler.
\<close>

datatype use_path = NoPath | UsePath string | UsePaths "string list"

function Router_use ::
  "'r Layer_proto \<Rightarrow> rid \<Rightarrow> use_path \<Rightarrow> 'r use_arg list \<Rightarrow> 'r world \<Rightarrow> 'r world" where
  "Router_use L self (UsePaths (p # ps)) middleware W =
     fold (\<lambda>q W'. Router_use L self (UsePath q) middleware W') (p # ps) W"
| "Router_use L self (UsePaths []) middleware W =
     fold (use_middleware L self None False) middleware
       (fst (Router_register L self (Path ''(.*)'') [] []
               \<lparr>go_end = Some False, go_name = None, go_sensitive = None,
                go_strict = None, go_prefix = None, go_ignoreCaptures = Some True\<rparr> W))"
| "Router_use L self (UsePath p) middleware W =
     fold (use_middleware L self (Some p) True) middleware W"
| "Router_use L self NoPath middleware W =
     fold (use_middleware L self None False) middleware W"
  by pat_completeness auto
termination
  by (relation "measure (\<lambda>(L, self, first, middleware, W).
        case first of UsePaths ps \<Rightarrow> Suc 0 | _ \<Rightarrow> 0)") auto

section \<open>redux: applyMiddleware\<close>

text \<open>
  The function values \<^verbatim>\<open>applyMiddleware\<close> handles, as closures:
  \<^item> \<open>Undefined\<close>: a property that is missing;
  \<^item> \<open>Thrower\<close>: the arrow function the variable \<^verbatim>\<open>dispatch\<close> first holds, which throws;
  \<^item> \<open>ApiDispatch\<close>: \<^verbatim>\<open>(...args) => dispatch(...args)\<close>, which reads the variable
    \<^verbatim>\<open>dispatch\<close> when it is called;
  \<^item> \<open>Handler c next\<close>: the function that the chain element \<open>c\<close> builds around \<open>next\<close>;
  \<^item> \<open>StoreFn x\<close>: a function that is made elsewhere: one of the base store
    (\<^verbatim>\<open>dispatch\<close>, \<^verbatim>\<open>getState\<close>, \<^verbatim>\<open>subscribe\<close>, ...) or a built-in.
\<close>

datatype ('c, 'x) fn_value =
    Undefined
  | Thrower
  | ApiDispatch
  | Handler 'c "('c, 'x) fn_value"
  | StoreFn 'x

text \<open>
  An object: \<open>obj_own\<close> are its own enumerable properties, which a spread copies;
  \<open>obj_rest\<close> is what a read finds under a name that is none of these: an own property
  that is not enumerable, or else a property along the prototype chain. Properties are
  named by strings, and each is held as the value that a read of it yields.
\<close>

record ('c, 'x) object =
  obj_own :: "string \<Rightarrow> ('c, 'x) fn_value option"
  obj_rest :: "string \<Rightarrow> ('c, 'x) fn_value option"

text \<open>\<^verbatim>\<open>obj.name\<close>\<close>

definition get_prop :: "('c, 'x) object \<Rightarrow> string \<Rightarrow> ('c, 'x) fn_value" where
  "get_prop obj name =
     (case obj_own obj name of
        Some v \<Rightarrow> v
      | None \<Rightarrow> (case obj_rest obj name of None \<Rightarrow> Undefined | Some v \<Rightarrow> v))"

text \<open>
  What a call yields: a thrown error or a returned value, with the state of everything
  else (the store's state among it); \<open>None\<close> when the calls nest deeper than the fuel.
\<close>

type_synonym ('y, 'w) outcome = "((js_error + 'y) \<times> 'w) option"

type_synonym ('c, 'x, 'a, 'v, 'w) caller =
  "('c, 'x) fn_value \<Rightarrow> 'a \<Rightarrow> 'w \<Rightarrow> ('v, 'w) outcome"

record ('c, 'x) middlewareAPI =
  api_getState :: "('c, 'x) fn_value"
  api_dispatch :: "('c, 'x) fn_value"

text \<open>
  The middlewares and the base store's functions are inputs. A middleware is written
  \<^verbatim>\<open>api => next => action => ...\<close>; what its three stages do is given by
  \<^item> \<open>mw_init m call api\<close>: the call \<^verbatim>\<open>m(middlewareAPI)\<close>, yielding a chain element;
  \<^item> \<open>mw_wrap c call next\<close>: the call of the chain element on \<^verbatim>\<open>next\<close>, yielding a
    function value (for the usual middleware, \<open>Handler c next\<close>);
  \<^item> \<open>mw_handle c call next action\<close>: the call of that function on an action;
  each with \<open>call\<close>, the means to call a function value as it behaves at that time.
  \<open>store_call x\<close> is the call of a function of the base store. \<open>Object_prototype\<close> is
  what an object literal inherits: the members of \<^verbatim>\<open>Object.prototype\<close>, as they are when
  the enhancer runs.
\<close>

record ('m, 'c, 'x, 'a, 'v, 'w) semantics =
  mw_init :: "'m \<Rightarrow> ('c, 'x, 'a, 'v, 'w) caller \<Rightarrow> ('c, 'x) middlewareAPI \<Rightarrow> 'w \<Rightarrow> ('c, 'w) outcome"
  mw_wrap :: "'c \<Rightarrow> ('c, 'x, 'a, 'v, 'w) caller \<Rightarrow> ('c, 'x) fn_value \<Rightarrow> 'w \<Rightarrow>
                (('c, 'x) fn_value, 'w) outcome"
  mw_handle :: "'c \<Rightarrow> ('c, 'x, 'a, 'v, 'w) caller \<Rightarrow> ('c, 'x) fn_value \<Rightarrow> 'a \<Rightarrow> 'w \<Rightarrow>
                  ('v, 'w) outcome"
  store_call :: "'x \<Rightarrow> 'a \<Rightarrow> 'w \<Rightarrow> (js_error + 'v) \<times> 'w"
  Object_prototype :: "string \<Rightarrow> ('c, 'x) fn_value option"

definition dispatching_error :: js_error where
  "dispatching_error =
     Error (''Dispatching while constructing your middleware is not allowed. '' @
            ''Other middleware would not be applied to this dispatch.'')"

text \<open>
  Calling a function value while the variable \<^verbatim>\<open>dispatch\<close> holds \<open>var\<close>. Every call
  uses one unit of fuel.
\<close>

primrec call ::
  "('m, 'c, 'x, 'a, 'v, 'w) semantics \<Rightarrow> ('c, 'x) fn_value \<Rightarrow> nat \<Rightarrow>
     ('c, 'x, 'a, 'v, 'w) caller" where
  "call sem var 0 f a w = None"
| "call sem var (Suc n) f a w =
     (case f of
        Undefined \<Rightarrow> Some (Inl (TypeError ''undefined is not a function''), w)
      | Thrower \<Rightarrow> Some (Inl dispatching_error, w)
      | ApiDispatch \<Rightarrow> call sem var n var a w
      | Handler c nxt \<Rightarrow> mw_handle sem c (call sem var n) nxt a w
      | StoreFn x \<Rightarrow> Some (store_call sem x a w))"

text \<open>\<^verbatim>\<open>middlewares.map(middleware => middleware(middlewareAPI))\<close>, left to right; the
  first throw ends it.\<close>

fun map_middlewares ::
  "('m, 'c, 'x, 'a, 'v, 'w) semantics \<Rightarrow> ('c, 'x, 'a, 'v, 'w) caller \<Rightarrow>
     ('c, 'x) middlewareAPI \<Rightarrow> 'm list \<Rightarrow> 'w \<Rightarrow> ('c list, 'w) outcome" where
  "map_middlewares sem callr api [] w = Some (Inr [], w)"
| "map_middlewares sem callr api (m # ms) w =
     (case mw_init sem m callr api w of
        None \<Rightarrow> None
      | Some (Inl e, w') \<Rightarrow> Some (Inl e, w')
      | Some (Inr c, w') \<Rightarrow>
          (case map_middlewares sem callr api ms w' of
             None \<Rightarrow> None
           | Some (Inl e, w'') \<Rightarrow> Some (Inl e, w'')
           | Some (Inr cs, w'') \<Rightarrow> Some (Inr (c # cs), w'')))"

text \<open>
  Modelled from the spec: redux's \<^verbatim>\<open>compose\<close> is imported and is not among the sources.
  \<^verbatim>\<open>compose(...chain)(base)\<close> wraps the base function in the last chain element first and
  in the first one last; with no chain element it is the base function.
\<close>

fun compose_chain ::
  "('m, 'c, 'x, 'a, 'v, 'w) semantics \<Rightarrow> ('c, 'x, 'a, 'v, 'w) caller \<Rightarrow> 'c list \<Rightarrow>
     ('c, 'x) fn_value \<Rightarrow> 'w \<Rightarrow> (('c, 'x) fn_value, 'w) outcome" where
  "compose_chain sem callr [] base w = Some (Inr base, w)"
| "compose_chain sem callr (c # cs) base w =
     (case compose_chain sem callr cs base w of
        None \<Rightarrow> None
      | Some (Inl e, w') \<Rightarrow> Some (Inl e, w')
      | Some (Inr inner, w') \<Rightarrow> mw_wrap sem c callr inner w')"

text \<open>What the enhancer leaves: the object it returns, and what the variable
  \<^verbatim>\<open>dispatch\<close>, which \<open>ApiDispatch\<close> reads, holds from then on.\<close>

record ('c, 'x) enhanced =
  e_store :: "('c, 'x) object"
  e_dispatch_var :: "('c, 'x) fn_value"

text \<open>\<^verbatim>\<open>{...store, dispatch}\<close>: a new object literal with the own enumerable properties of
  \<^verbatim>\<open>store\<close>, and then \<^verbatim>\<open>dispatch\<close>.\<close>

definition spread_with_dispatch ::
  "('m, 'c, 'x, 'a, 'v, 'w) semantics \<Rightarrow> ('c, 'x) object \<Rightarrow> ('c, 'x) fn_value \<Rightarrow>
     ('c, 'x) object" where
  "spread_with_dispatch sem store dispatch' =
     \<lparr>obj_own = (obj_own store)(''dispatch'' \<mapsto> dispatch'), obj_rest = Object_prototype sem\<rparr>"

text \<open>
  \<^verbatim>\<open>applyMiddleware(...middlewares)(createStore)(...args)\<close>. Until the assignment
  \<^verbatim>\<open>dispatch = compose(...chain)(store.dispatch)\<close> is done the variable holds \<open>Thrower\<close>:
  that is the state in which the middlewares and the chain elements are called.
  \<^verbatim>\<open>store.getState\<close> and \<^verbatim>\<open>store.dispatch\<close> are reads, which see inherited members too.
\<close>

definition applyMiddleware ::
  "('m, 'c, 'x, 'a, 'v, 'w) semantics \<Rightarrow> nat \<Rightarrow> 'm list \<Rightarrow>
     ('args \<Rightarrow> 'w \<Rightarrow> (js_error + ('c, 'x) object) \<times> 'w) \<Rightarrow> 'args \<Rightarrow> 'w \<Rightarrow>
     (('c, 'x) enhanced, 'w) outcome" where
  "applyMiddleware sem fuel middlewares createStore args w =
     (case createStore args w of
        (Inl e, w1) \<Rightarrow> Some (Inl e, w1)
      | (Inr store, w1) \<Rightarrow>
          let dispatch = Thrower;
              middlewareAPI = \<lparr>api_getState = get_prop store ''getState'',
                               api_dispatch = ApiDispatch\<rparr>
          in case map_middlewares sem (call sem dispatch fuel) middlewareAPI middlewares w1 of
               None \<Rightarrow> None
             | Some (Inl e, w2) \<Rightarrow> Some (Inl e, w2)
             | Some (Inr chain, w2) \<Rightarrow>
                 (case compose_chain sem (call sem dispatch fuel) chain
                         (get_prop store ''dispatch'') w2 of
                    None \<Rightarrow> None
                  | Some (Inl e, w3) \<Rightarrow> Some (Inl e, w3)
                  | Some (Inr dispatch', w3) \<Rightarrow>
                      Some (Inr \<lparr>e_store = spread_with_dispatch sem store dispatch',
                                 e_dispatch_var = dispatch'\<rparr>, w3)))"

text \<open>
  The usual middleware: \<^verbatim>\<open>api => next => action => ...\<close> with nothing done before the
  innermost function is called. Its first stage returns the chain element \<open>elem m\<close>, its
  second the handler around \<open>next\<close>.
\<close>

definition standard_middleware ::
  "('m, 'c, 'x, 'a, 'v, 'w) semantics \<Rightarrow> ('m \<Rightarrow> 'c) \<Rightarrow> bool" where
  "standard_middleware sem elem =
     ((\<forall>m callr api w. mw_init sem m callr api w = Some (Inr (elem m), w)) \<and>
      (\<forall>c callr nxt w. mw_wrap sem c callr nxt w = Some (Inr (Handler c nxt), w)))"

text \<open>A middleware whose first stage dispatches \<open>action\<close> through the API and lets a
  throw escape.\<close>

definition dispatches_at_init ::
  "('m, 'c, 'x, 'a, 'v, 'w) semantics \<Rightarrow> 'm \<Rightarrow> 'a \<Rightarrow> 'c \<Rightarrow> bool" where
  "dispatches_at_init sem m action c =
     (\<forall>callr api w.
        mw_init sem m callr api w =
          (case callr (api_dispatch api) action w of
             None \<Rightarrow> None
           | Some (Inl e, w') \<Rightarrow> Some (Inl e, w')
           | Some (Inr v, w') \<Rightarrow> Some (Inr c, w')))"

section \<open>A small router, for evaluation\<close>

text \<open>
  A mount point \<^verbatim>\<open>/admin\<close> (no methods, prefix match), then \<^verbatim>\<open>GET /admin/users\<close> named
  \<^verbatim>\<open>users\<close>, then \<^verbatim>\<open>GET /admin/people\<close> registered under the same name. Handlers yield
  the list of what ran, each entry with the router name the context carried then.
\<close>

definition ex_opts :: layer_opts where
  "ex_opts = \<lparr>lo_end = True, lo_name = None, lo_sensitive = False, lo_strict = False,
               lo_prefix = '''', lo_ignoreCaptures = None\<rparr>"

definition ex_handler :: "string \<Rightarrow> string list middleware" where
  "ex_handler tag ctx next =
     (tag @ '':'' @ (case ctx_routerName ctx of Some n \<Rightarrow> n | None \<Rightarrow> ''-'')) # next ctx"

definition ex_mount :: "string list layer" where
  "ex_mount = \<lparr>l_opts = ex_opts\<lparr>lo_end := False, lo_ignoreCaptures := Some False\<rparr>,
      l_name = None, l_methods = [], l_paramNames = [],
      l_stack = [ex_handler ''mount''], l_path = ''/admin'',
      l_regexp = (\<lambda>p. take 6 p = ''/admin'')\<rparr>"

definition ex_users :: "string list layer" where
  "ex_users = \<lparr>l_opts = ex_opts\<lparr>lo_name := Some ''users''\<rparr>,
      l_name = Some ''users'', l_methods = [''GET''], l_paramNames = [],
      l_stack = [ex_handler ''list''], l_path = ''/admin/users'',
      l_regexp = (\<lambda>p. p = ''/admin/users'')\<rparr>"

definition ex_people :: "string list layer" where
  "ex_people = \<lparr>l_opts = ex_opts\<lparr>lo_name := Some ''users''\<rparr>,
      l_name = Some ''users'', l_methods = [''GET''], l_paramNames = [],
      l_stack = [ex_handler ''people''], l_path = ''/admin/people'',
      l_regexp = (\<lambda>p. p = ''/admin/people'')\<rparr>"

definition ex_store :: "addr \<Rightarrow> string list layer" where
  "ex_store a = (if a = 0 then ex_mount else if a = 1 then ex_users else ex_people)"

definition ex_router :: "string list router" where
  "ex_router = (Router_new \<lparr>ro_prefix = None, ro_routerPath = None, ro_sensitive = False,
                   ro_strict = False, ro_methods = None\<rparr>)\<lparr>r_stack := [0, 1, 2]\<rparr>"

definition ex_ctx :: "string \<Rightarrow> string \<Rightarrow> ctx" where
  "ex_ctx method path =
     \<lparr>ctx_method = method, ctx_path = path, ctx_routerPath = None, ctx_matched = None,
      ctx_router = None, ctx_captures = None, ctx_params = None, ctx_routerName = None,
      ctx_matchedRoute = None, ctx_matchedRouteName = None, ctx_status = None,
      ctx_body = BNull, ctx_header = [], ctx_message = '''', ctx_respond = None,
      ctx_writable = True, ctx_headersSent = False, ctx_type = None, ctx_length = None,
      ctx_finished_listeners = 0, ctx_written = []\<rparr>"

definition ex_captures :: "'r layer_captures" where
  "ex_captures layer path prior =
     (if lo_ignoreCaptures (l_opts layer) = Some True then prior else Some [])"

definition ex_params :: "'r layer_params" where
  "ex_params layer path captures prior = (case prior of None \<Rightarrow> Some [] | Some ps \<Rightarrow> Some ps)"

definition ex_next :: "ctx \<Rightarrow> string list" where
  "ex_next ctx = [''next:'' @ (case ctx_matchedRoute ctx of Some n \<Rightarrow> n | None \<Rightarrow> ''-'')]"

definition ex_url :: "string list layer \<Rightarrow> unit \<Rightarrow> js_error + returned" where
  "ex_url layer args = Inr (RString (l_path layer))"



definition ex_downstream :: "ctx \<Rightarrow> completion" where
  "ex_downstream ctx = Resolved (ctx\<lparr>ctx_matched := Some [1], ctx_status := Some 404\<rparr>)"

definition ex_allowed_options :: allowed_options where
  "ex_allowed_options = \<lparr>ao_throw = False, ao_notImplemented = None, ao_methodNotAllowed = None\<rparr>"






text \<open>
  For redux: a store that is an object literal with three functions, whose \<^verbatim>\<open>dispatch\<close>
  logs the action it reduces; a store that is an instance of a class, with the same
  three functions as methods of the class and one own property; middlewares named by
  strings, of which \<^verbatim>\<open>thunk\<close> answers the action \<^verbatim>\<open>async\<close> by dispatching \<^verbatim>\<open>done\<close> through
  the API, and every other one logs and calls \<^verbatim>\<open>next\<close>; and a variant in which every
  middleware dispatches while it is being set up.
\<close>

definition ex_Object_prototype :: "string \<Rightarrow> (string, string) fn_value option" where
  "ex_Object_prototype = map_of [(''constructor'', StoreFn ''Object''),
     (''hasOwnProperty'', StoreFn ''hasOwnProperty''), (''isPrototypeOf'', StoreFn ''isPrototypeOf''),
     (''propertyIsEnumerable'', StoreFn ''propertyIsEnumerable''),
     (''toLocaleString'', StoreFn ''toLocaleString''), (''toString'', StoreFn ''toString''),
     (''valueOf'', StoreFn ''valueOf'')]"

definition ex_semantics ::
  "(string, string, string, string, string, string list) semantics" where
  "ex_semantics =
     \<lparr>mw_init = (\<lambda>m callr api w. Some (Inr m, w)),
      mw_wrap = (\<lambda>c callr nxt w. Some (Inr (Handler c nxt), w)),
      mw_handle = (\<lambda>c callr nxt action w.
         if c = ''thunk'' \<and> action = ''async'' then callr ApiDispatch ''done'' w
         else callr nxt action (w @ [c @ '' saw '' @ action])),
      store_call = (\<lambda>x action w.
         if x = ''dispatch'' then (Inr action, w @ [''reduced '' @ action])
         else (Inr ''state'', w)),
      Object_prototype = ex_Object_prototype\<rparr>"

definition ex_eager_semantics ::
  "(string, string, string, string, string, string list) semantics" where
  "ex_eager_semantics =
     ex_semantics\<lparr>mw_init := (\<lambda>m callr api w.
        case callr (api_dispatch api) ''INIT'' w of
          None \<Rightarrow> None
        | Some (Inl e, w') \<Rightarrow> Some (Inl e, w')
        | Some (Inr v, w') \<Rightarrow> Some (Inr m, w'))\<rparr>"

definition ex_base_store :: "(string, string) object" where
  "ex_base_store =
     \<lparr>obj_own = map_of [(''dispatch'', StoreFn ''dispatch''),
        (''getState'', StoreFn ''getState''), (''subscribe'', StoreFn ''subscribe'')],
      obj_rest = ex_Object_prototype\<rparr>"



definition ex_createStore ::
  "unit \<Rightarrow> string list \<Rightarrow> (js_error + (string, string) object) \<times> string list" where
  "ex_createStore args w = (Inr ex_base_store, w)"

definition ex_dispatch :: "(string, string) fn_value" where
  "ex_dispatch = Handler ''logger'' (Handler ''thunk'' (StoreFn ''dispatch''))"

text \<open>
  For registration: a layer class whose matcher accepts the path itself, whose
  \<^verbatim>\<open>setPrefix\<close> prepends and whose \<^verbatim>\<open>param\<close> notes the parameter name; a router at 0 with
  prefix \<^verbatim>\<open>/api\<close> and a handler for the parameter \<^verbatim>\<open>fid\<close>, and a router at 1 with the
  layers \<^verbatim>\<open>GET /\<close> and \<^verbatim>\<open>GET /:pid\<close>.
\<close>

definition ex_proto :: "string list Layer_proto" where
  "ex_proto =
     \<lparr>Layer_new = (\<lambda>path methods middleware opts.
         \<lparr>l_opts = opts, l_name = lo_name opts, l_methods = methods, l_paramNames = [],
          l_stack = middleware, l_path = path, l_regexp = (\<lambda>p. p = path)\<rparr>),
      Layer_setPrefix = (\<lambda>prefix layer.
         layer\<lparr>l_path := prefix @ l_path layer, l_regexp := (\<lambda>p. p = prefix @ l_path layer)\<rparr>),
      Layer_param = (\<lambda>name mw layer. layer\<lparr>l_paramNames := l_paramNames layer @ [name]\<rparr>)\<rparr>"

definition ex_loader :: "string list param_middleware" where
  "ex_loader v ctx next = (''load '' @ v) # next ctx"

definition ex_posts_index :: "string list layer" where
  "ex_posts_index = Layer_new ex_proto ''/'' [''GET''] [ex_handler ''index''] ex_opts"

definition ex_posts_show :: "string list layer" where
  "ex_posts_show = Layer_new ex_proto ''/:pid'' [''GET''] [ex_handler ''show''] ex_opts"

definition ex_world :: "string list world" where
  "ex_world =
     \<lparr>w_layers = (\<lambda>a. if a = 0 then ex_posts_index else ex_posts_show),
      w_routers = (\<lambda>r. if r = 0
         then (Router_new \<lparr>ro_prefix = Some ''/api'', ro_routerPath = None, ro_sensitive = False,
                 ro_strict = False, ro_methods = None\<rparr>)\<lparr>r_params := [(''fid'', ex_loader)]\<rparr>
         else (Router_new \<lparr>ro_prefix = None, ro_routerPath = None, ro_sensitive = False,
                 ro_strict = False, ro_methods = None\<rparr>)\<lparr>r_stack := [0, 1]\<rparr>),
      w_fresh = 2\<rparr>"

section \<open>Evaluation of the example\<close>

lemmas ex_defs = ex_opts_def ex_handler_def ex_mount_def ex_users_def ex_people_def
  ex_store_def ex_router_def ex_ctx_def ex_captures_def ex_params_def ex_next_def
  ex_url_def ex_downstream_def ex_allowed_options_def Router_new_def

lemmas w_defs = ex_proto_def ex_loader_def ex_posts_index_def ex_posts_show_def ex_world_def
  Router_new_def ex_opts_def

section \<open>Properties of Router.prototype.match\<close>

lemma match_loop_path:
  "m_path (match_loop store path method layers matched) =
     m_path matched @ filter (\<lambda>a. Layer_match (store a) path) layers"
  by (induction layers arbitrary: matched) (simp_all add: match_step_def Let_def)

lemma match_loop_pathAndMethod:
  "m_pathAndMethod (match_loop store path method layers matched) =
     m_pathAndMethod matched @
     filter (\<lambda>a. Layer_match (store a) path \<and>
                 (l_methods (store a) = [] \<or> method \<in> set (l_methods (store a)))) layers"
  by (induction layers arbitrary: matched)
    (auto simp add: match_step_def Let_def indexOf_found_def)

lemma match_loop_route:
  "m_route (match_loop store path method layers matched) =
     (m_route matched \<or>
      (\<exists>a \<in> set layers. Layer_match (store a) path \<and> l_methods (store a) \<noteq> [] \<and>
         method \<in> set (l_methods (store a))))"
  by (induction layers arbitrary: matched)
    (auto simp add: match_step_def Let_def indexOf_found_def)

lemma route_found_nonempty:
  "m_route (Router_match store router path method) \<Longrightarrow>
     m_pathAndMethod (Router_match store router path method) \<noteq> []"
  unfolding Router_match_def
  by (auto simp add: match_loop_pathAndMethod match_loop_route filter_empty_conv)

text \<open>
  Claim C1. For every store of layers, router, path and method, \<^verbatim>\<open>match\<close> returns: as
  \<^verbatim>\<open>path\<close>, the layers of the stack that match the path, in the order of the stack; as
  \<^verbatim>\<open>pathAndMethod\<close>, those of them whose method list is empty or holds the request
  method, in the same order; and \<^verbatim>\<open>route\<close> is true exactly when one of the layers in
  \<^verbatim>\<open>pathAndMethod\<close> has a method list that is not empty.
\<close>

theorem Router_match_result:
  "m_path (Router_match store router path method) =
     filter (\<lambda>a. Layer_match (store a) path) (r_stack router)
   \<and> m_pathAndMethod (Router_match store router path method) =
     filter (\<lambda>a. l_methods (store a) = [] \<or> method \<in> set (l_methods (store a)))
       (m_path (Router_match store router path method))
   \<and> m_route (Router_match store router path method) =
     (\<exists>a \<in> set (m_pathAndMethod (Router_match store router path method)).
        l_methods (store a) \<noteq> [])"
  unfolding Router_match_def
  by (auto simp add: match_loop_path match_loop_pathAndMethod match_loop_route)

theorem Router_match_result_witness:
  "m_path (Router_match ex_store ex_router ''/admin/users'' ''POST'') = [0, 1]
   \<and> m_pathAndMethod (Router_match ex_store ex_router ''/admin/users'' ''POST'') = [0]
   \<and> m_route (Router_match ex_store ex_router ''/admin/users'' ''POST'') = False
   \<and> m_pathAndMethod (Router_match ex_store ex_router ''/admin/users'' ''GET'') = [0, 1]
   \<and> m_route (Router_match ex_store ex_router ''/admin/users'' ''GET'') = True"
  using Router_match_result[of ex_store ex_router "''/admin/users''" "''POST''"]
    Router_match_result[of ex_store ex_router "''/admin/users''" "''GET''"]
  by (simp add: ex_defs Layer_match_def)

section \<open>Properties of Router.prototype.url\<close>

lemma route_loop_find:
  "route_loop store name routes =
     find (\<lambda>a. l_name (store a) = Some name \<and> name \<noteq> []) routes"
  by (induction routes) auto

lemma route_loop_none:
  "\<forall>b \<in> set routes. l_name (store b) \<noteq> Some name \<Longrightarrow> route_loop store name routes = None"
  by (induction routes) auto

text \<open>
  Claim C7. \<^verbatim>\<open>route\<close> returns the first layer of the stack, in stack order, whose name
  is the given name (a name is a string that is not empty: the loop skips a layer whose
  name is falsy), so of several layers registered under one name the first wins;
  \<^verbatim>\<open>url\<close> returns what that layer's \<^verbatim>\<open>url\<close> returns for the remaining arguments; and
  when no layer of the stack has the name, \<^verbatim>\<open>url\<close> returns, as an ordinary value, an
  Error whose message names the missing route.
\<close>

theorem Router_url_resolves:
  "Router_route store router name =
     find (\<lambda>a. l_name (store a) = Some name \<and> name \<noteq> []) (r_stack router)
   \<and> (Router_route store router name = Some a \<longrightarrow>
        Router_url layer_url store router name args = layer_url (store a) args)
   \<and> ((\<forall>b \<in> set (r_stack router). l_name (store b) \<noteq> Some name) \<longrightarrow>
        Router_url layer_url store router name args =
          Inr (RError (Error (''No route found for name: '' @ name))))"
  by (simp add: Router_route_def Router_url_def route_loop_find[symmetric] route_loop_none)

theorem Router_url_resolves_witness:
  "Router_route ex_store ex_router ''users'' = Some 1
   \<and> Router_url ex_url ex_store ex_router ''users'' () = Inr (RString ''/admin/users'')
   \<and> Router_url ex_url ex_store ex_router ''posts'' () =
       Inr (RError (Error ''No route found for name: posts''))"
  using Router_url_resolves[where store=ex_store and router=ex_router and name="''users''"
      and a=1 and layer_url=ex_url and args="()"]
    Router_url_resolves[where store=ex_store and router=ex_router and name="''posts''"
      and layer_url=ex_url and args="()"]
  by (simp add: ex_defs)

section \<open>Properties of the dispatch function\<close>

lemma layerChain_foldl:
  "foldl (\<lambda>memo a. memo @ f a # g a) acc xs = acc @ concat (map (\<lambda>a. f a # g a) xs)"
  by (induction xs arbitrary: acc) simp_all

lemma layerChain_concat:
  "layerChain cap par store path ms =
     concat (map (\<lambda>a. bind_params cap par (store a) path # l_stack (store a)) ms)"
  unfolding layerChain_def by (simp add: layerChain_foldl)

lemma compose_append:
  "compose (fs @ gs) ctx nxt = compose fs ctx (\<lambda>ctx'. compose gs ctx' nxt)"
  by (induction fs arbitrary: ctx) simp_all

text \<open>
  Claim C4. With \<open>path\<close> the path the router matches on and \<open>ctx'\<close> the context after
  the dispatcher has recorded the path matches and the router: when \<^verbatim>\<open>route\<close> of the
  match result is false, \<^verbatim>\<open>dispatch\<close> is the caller's \<^verbatim>\<open>next\<close>; otherwise
  \<^verbatim>\<open>pathAndMethod\<close> is not empty (so the TypeError of the model cannot arise) and
  \<^verbatim>\<open>dispatch\<close> runs the composed chain on a context whose \<^verbatim>\<open>_matchedRoute\<close> is the path
  of the last layer of \<^verbatim>\<open>pathAndMethod\<close> and whose \<^verbatim>\<open>_matchedRouteName\<close> is that layer's
  name if it has one, and is left as it was if not.
\<close>

theorem dispatch_result:
  "let path = or_string (ro_routerPath (r_opts router))
                (or_string (ctx_routerPath ctx) (ctx_path ctx));
       matched = Router_match store router path (ctx_method ctx);
       ctx' = ctx\<lparr>ctx_matched := Some (case ctx_matched ctx of
                                         Some ms \<Rightarrow> ms @ m_path matched
                                       | None \<Rightarrow> m_path matched),
                  ctx_router := Some self\<rparr>;
       most = store (last (m_pathAndMethod matched))
   in (\<not> m_route matched \<longrightarrow> dispatch cap par store self router ctx nxt = Inr (nxt ctx'))
    \<and> (m_route matched \<longrightarrow>
         m_pathAndMethod matched \<noteq> []
       \<and> dispatch cap par store self router ctx nxt =
           Inr (compose (layerChain cap par store path (m_pathAndMethod matched))
                  (ctx'\<lparr>ctx_matchedRoute := Some (l_path most),
                        ctx_matchedRouteName :=
                          (if truthy (l_name most) then l_name most
                           else ctx_matchedRouteName ctx)\<rparr>)
                  nxt))"
  using route_found_nonempty[of store router]
  by (auto simp add: dispatch_def Let_def split: option.splits)

theorem dispatch_result_witness:
  "dispatch ex_captures ex_params ex_store 7 ex_router (ex_ctx ''GET'' ''/admin/users'') ex_next
     = Inr [''mount:-'', ''list:users'', ''next:/admin/users'']
   \<and> dispatch ex_captures ex_params ex_store 7 ex_router (ex_ctx ''POST'' ''/admin/users'') ex_next
     = Inr [''next:-'']"
  using dispatch_result[where router=ex_router and ctx="ex_ctx ''GET'' ''/admin/users''"
      and store=ex_store and cap=ex_captures and par=ex_params and self=7 and nxt=ex_next]
    dispatch_result[where router=ex_router and ctx="ex_ctx ''POST'' ''/admin/users''"
      and store=ex_store and cap=ex_captures and par=ex_params and self=7 and nxt=ex_next]
  by (simp add: ex_defs Router_match_def match_step_def Layer_match_def indexOf_found_def
      or_string_def layerChain_def bind_params_def Let_def)

text \<open>
  Claim C2. The chain \<^verbatim>\<open>dispatch\<close> composes is, for the layers of \<^verbatim>\<open>pathAndMethod\<close> in
  their order, the layer's binding step followed by the layer's own handlers. The binding
  step sets \<^verbatim>\<open>ctx.captures\<close> from the layer and the captures so far, \<^verbatim>\<open>ctx.params\<close> from
  the layer, the new captures and the params so far, and \<^verbatim>\<open>ctx.routerName\<close> to the
  layer's name, then continues. Composed, the chain of a first layer followed by later
  ones runs the first layer's binding step, then its handlers, and the later layers'
  part of the chain only as the continuation of these; the same holds for any split of
  the matched layers into earlier and later ones.
\<close>

theorem layerChain_order:
  "layerChain cap par store path ms =
     concat (map (\<lambda>a. bind_params cap par (store a) path # l_stack (store a)) ms)
   \<and> bind_params cap par layer path ctx nxt =
       nxt (ctx\<lparr>ctx_captures := cap layer path (ctx_captures ctx),
                ctx_params := par layer path (cap layer path (ctx_captures ctx)) (ctx_params ctx),
                ctx_routerName := l_name layer\<rparr>)
   \<and> compose (layerChain cap par store path (a # later)) ctx nxt =
       bind_params cap par (store a) path ctx
         (\<lambda>c1. compose (l_stack (store a)) c1
            (\<lambda>c2. compose (layerChain cap par store path later) c2 nxt))
   \<and> compose (layerChain cap par store path (earlier @ later)) ctx nxt =
       compose (layerChain cap par store path earlier) ctx
         (\<lambda>c. compose (layerChain cap par store path later) c nxt)
   \<and> (let dpath = or_string (ro_routerPath (r_opts router))
                     (or_string (ctx_routerPath ctx) (ctx_path ctx));
           matched = Router_match store router dpath (ctx_method ctx)
       in m_route matched \<longrightarrow>
          (\<exists>c. dispatch cap par store self router ctx nxt =
                 Inr (compose (layerChain cap par store dpath (m_pathAndMethod matched)) c nxt)))"
proof -
  have cons: "compose (layerChain cap par store path (a # later)) ctx nxt =
       bind_params cap par (store a) path ctx
         (\<lambda>c1. compose (l_stack (store a)) c1
            (\<lambda>c2. compose (layerChain cap par store path later) c2 nxt))"
    by (simp add: layerChain_concat compose_append)
  have app: "compose (layerChain cap par store path (earlier @ later)) ctx nxt =
       compose (layerChain cap par store path earlier) ctx
         (\<lambda>c. compose (layerChain cap par store path later) c nxt)"
    by (simp add: layerChain_concat compose_append)
  have bind: "bind_params cap par layer path ctx nxt =
       nxt (ctx\<lparr>ctx_captures := cap layer path (ctx_captures ctx),
                ctx_params := par layer path (cap layer path (ctx_captures ctx)) (ctx_params ctx),
                ctx_routerName := l_name layer\<rparr>)"
    by (simp add: bind_params_def Let_def)
  have disp: "let dpath = or_string (ro_routerPath (r_opts router))
                     (or_string (ctx_routerPath ctx) (ctx_path ctx));
           matched = Router_match store router dpath (ctx_method ctx)
       in m_route matched \<longrightarrow>
          (\<exists>c. dispatch cap par store self router ctx nxt =
                 Inr (compose (layerChain cap par store dpath (m_pathAndMethod matched)) c nxt))"
    using route_found_nonempty[of store router]
    by (auto simp add: dispatch_def Let_def)
  from layerChain_concat cons app bind disp show ?thesis by blast
qed

theorem layerChain_order_witness:
  "m_pathAndMethod (Router_match ex_store ex_router ''/admin/users'' ''GET'') = [0, 1]
   \<and> compose (layerChain ex_captures ex_params ex_store ''/admin/users'' ([0] @ [1]))
       (ex_ctx ''GET'' ''/admin/users'') ex_next
     = ''mount:-'' # compose (layerChain ex_captures ex_params ex_store ''/admin/users'' [1])
         ((ex_ctx ''GET'' ''/admin/users'')\<lparr>ctx_captures := Some [], ctx_params := Some []\<rparr>)
         ex_next
   \<and> (\<exists>c. dispatch ex_captures ex_params ex_store 7 ex_router (ex_ctx ''GET'' ''/admin/users'')
             ex_next
           = Inr (compose (layerChain ex_captures ex_params ex_store ''/admin/users'' [0, 1])
                    c ex_next))"
proof -
  have m: "Router_match ex_store ex_router ''/admin/users'' ''GET''
      = \<lparr>m_path = [0, 1], m_pathAndMethod = [0, 1], m_route = True\<rparr>"
    by (simp add: ex_defs Router_match_def match_step_def Layer_match_def indexOf_found_def)
  have p: "or_string (ro_routerPath (r_opts ex_router))
      (or_string (ctx_routerPath (ex_ctx ''GET'' ''/admin/users''))
         (ctx_path (ex_ctx ''GET'' ''/admin/users''))) = ''/admin/users''"
    by (simp add: ex_defs or_string_def)
  have g: "ctx_method (ex_ctx ''GET'' ''/admin/users'') = ''GET''"
    by (simp add: ex_ctx_def)
  have d: "\<exists>c. dispatch ex_captures ex_params ex_store 7 ex_router (ex_ctx ''GET'' ''/admin/users'')
             ex_next
           = Inr (compose (layerChain ex_captures ex_params ex_store ''/admin/users'' [0, 1])
                    c ex_next)"
    using layerChain_order[where router=ex_router and ctx="ex_ctx ''GET'' ''/admin/users''"
      and store=ex_store and cap=ex_captures and par=ex_params and self=7 and nxt=ex_next,
      THEN conjunct2, THEN conjunct2, THEN conjunct2, THEN conjunct2]
    unfolding Let_def p g m by simp
  have c: "compose (layerChain ex_captures ex_params ex_store ''/admin/users'' ([0] @ [1]))
       (ex_ctx ''GET'' ''/admin/users'') ex_next
     = ''mount:-'' # compose (layerChain ex_captures ex_params ex_store ''/admin/users'' [1])
         ((ex_ctx ''GET'' ''/admin/users'')\<lparr>ctx_captures := Some [], ctx_params := Some []\<rparr>)
         ex_next"
    by (simp add: ex_defs layerChain_def bind_params_def Let_def)
  from m c d show ?thesis by simp
qed

section \<open>Properties of the allowed-methods middleware\<close>

















section \<open>Properties of handleRequest\<close>







section \<open>Properties of applyMiddleware\<close>

lemma map_middlewares_standard:
  "standard_middleware sem elem \<Longrightarrow>
     map_middlewares sem callr api ms w = Some (Inr (map elem ms), w)"
  by (induction ms) (simp_all add: standard_middleware_def)

lemma compose_chain_standard:
  "standard_middleware sem elem \<Longrightarrow>
     compose_chain sem callr cs base w = Some (Inr (foldr Handler cs base), w)"
  by (induction cs) (simp_all add: standard_middleware_def)

lemma applyMiddleware_success:
  assumes "applyMiddleware sem fuel mws createStore args w = Some (Inr r, w')"
  shows "\<exists>store w1 chain w2.
           createStore args w = (Inr store, w1)
         \<and> map_middlewares sem (call sem Thrower fuel)
              \<lparr>api_getState = get_prop store ''getState'', api_dispatch = ApiDispatch\<rparr> mws w1
             = Some (Inr chain, w2)
         \<and> compose_chain sem (call sem Thrower fuel) chain (get_prop store ''dispatch'') w2
             = Some (Inr (e_dispatch_var r), w')
         \<and> e_store r = spread_with_dispatch sem store (e_dispatch_var r)"
  using assms
  by (auto simp add: applyMiddleware_def Let_def split: prod.splits sum.splits option.splits)

lemma applyMiddleware_standard:
  assumes std: "standard_middleware sem elem"
    and cs: "createStore args w = (Inr store, w1)"
  shows "applyMiddleware sem fuel mws createStore args w =
        Some (Inr \<lparr>e_store = spread_with_dispatch sem store
                               (foldr Handler (map elem mws) (get_prop store ''dispatch'')),
                   e_dispatch_var = foldr Handler (map elem mws) (get_prop store ''dispatch'')\<rparr>,
              w1)"
  using cs
  by (simp add: applyMiddleware_def Let_def map_middlewares_standard[OF std]
      compose_chain_standard[OF std])

lemma applyMiddleware_eager:
  assumes "dispatches_at_init sem m a c" and "createStore args w = (Inr store, w1)"
  shows "applyMiddleware sem (Suc (Suc n)) (m # ms) createStore args w
        = Some (Inl dispatching_error, w1)"
proof -
  have thrown: "call sem Thrower (Suc (Suc n)) ApiDispatch a w1 = Some (Inl dispatching_error, w1)"
    by simp
  have "mw_init sem m (call sem Thrower (Suc (Suc n)))
      \<lparr>api_getState = get_prop store ''getState'', api_dispatch = ApiDispatch\<rparr> w1
      = Some (Inl dispatching_error, w1)"
    using assms(1) thrown unfolding dispatches_at_init_def by simp
  then show ?thesis
    using assms(2) unfolding applyMiddleware_def Let_def by simp
qed

lemma spread_own:
  "obj_own (spread_with_dispatch sem store d) = (obj_own store)(''dispatch'' \<mapsto> d)"
  by (simp add: spread_with_dispatch_def)


lemma spread_dispatch: "get_prop (spread_with_dispatch sem store d) ''dispatch'' = d"
  by (simp add: spread_with_dispatch_def get_prop_def)



lemma ex_standard: "standard_middleware ex_semantics id"
  by (simp add: standard_middleware_def ex_semantics_def)

lemma ex_Object_prototype: "Object_prototype ex_semantics = ex_Object_prototype"
  by (simp add: ex_semantics_def)




text \<open>
  Claim C6. While the variable \<^verbatim>\<open>dispatch\<close> holds what it is initialised with, which is
  the state in which \<^verbatim>\<open>applyMiddleware\<close> calls the middlewares and composes the chain,
  a call of \<^verbatim>\<open>middlewareAPI.dispatch\<close> throws the error, with the state unchanged (given
  fuel for the two calls); and a middleware that dispatches when it is set up makes
  \<^verbatim>\<open>applyMiddleware\<close> throw that error. Whenever the enhancer returns, the variable
  holds the function that the returned object has as \<^verbatim>\<open>dispatch\<close>; this function is the
  composition of the chain, mapped from the middlewares, applied to the store's
  \<^verbatim>\<open>dispatch\<close>; and a call of \<^verbatim>\<open>middlewareAPI.dispatch\<close> is from then on a call of that
  function, as is a call of the returned object's \<^verbatim>\<open>dispatch\<close>.
\<close>

theorem applyMiddleware_dispatch:
  "call sem Thrower (Suc (Suc n)) ApiDispatch a u = Some (Inl dispatching_error, u)
 \<and> (dispatches_at_init sem m a c \<and> createStore args w = (Inr store, w1) \<longrightarrow>
      applyMiddleware sem (Suc (Suc n)) (m # ms) createStore args w
        = Some (Inl dispatching_error, w1))
 \<and> (applyMiddleware sem fuel mws createStore args w = Some (Inr r, w') \<longrightarrow>
      obj_own (e_store r) ''dispatch'' = Some (e_dispatch_var r)
    \<and> call sem (e_dispatch_var r) (Suc n) ApiDispatch a u
        = call sem (e_dispatch_var r) n (e_dispatch_var r) a u
    \<and> call sem (e_dispatch_var r) (Suc n) (get_prop (e_store r) ''dispatch'') a u
        = call sem (e_dispatch_var r) (Suc n) (e_dispatch_var r) a u
    \<and> (\<exists>store w1 chain w2.
          createStore args w = (Inr store, w1)
        \<and> map_middlewares sem (call sem Thrower fuel)
              \<lparr>api_getState = get_prop store ''getState'', api_dispatch = ApiDispatch\<rparr> mws w1
             = Some (Inr chain, w2)
        \<and> compose_chain sem (call sem Thrower fuel) chain (get_prop store ''dispatch'') w2
             = Some (Inr (e_dispatch_var r), w')))"
proof (intro conjI impI)
  show "call sem Thrower (Suc (Suc n)) ApiDispatch a u = Some (Inl dispatching_error, u)"
    by simp
next
  assume e: "dispatches_at_init sem m a c \<and> createStore args w = (Inr store, w1)"
  show "applyMiddleware sem (Suc (Suc n)) (m # ms) createStore args w
        = Some (Inl dispatching_error, w1)"
    by (rule applyMiddleware_eager[where createStore=createStore and args=args and w=w,
        OF conjunct1[OF e] conjunct2[OF e]])
next
  assume a: "applyMiddleware sem fuel mws createStore args w = Some (Inr r, w')"
  from applyMiddleware_success[OF a] obtain store w1 chain w2 where
    h: "createStore args w = (Inr store, w1)"
      "map_middlewares sem (call sem Thrower fuel)
              \<lparr>api_getState = get_prop store ''getState'', api_dispatch = ApiDispatch\<rparr> mws w1
             = Some (Inr chain, w2)"
      "compose_chain sem (call sem Thrower fuel) chain (get_prop store ''dispatch'') w2
             = Some (Inr (e_dispatch_var r), w')"
      "e_store r = spread_with_dispatch sem store (e_dispatch_var r)"
    by blast
  show "obj_own (e_store r) ''dispatch'' = Some (e_dispatch_var r)"
    unfolding h(4) by (simp add: spread_own)
  show "call sem (e_dispatch_var r) (Suc n) ApiDispatch a u
        = call sem (e_dispatch_var r) n (e_dispatch_var r) a u" by simp
  show "call sem (e_dispatch_var r) (Suc n) (get_prop (e_store r) ''dispatch'') a u
        = call sem (e_dispatch_var r) (Suc n) (e_dispatch_var r) a u"
    unfolding h(4) spread_dispatch ..
  show "\<exists>store w1 chain w2.
          createStore args w = (Inr store, w1)
        \<and> map_middlewares sem (call sem Thrower fuel)
              \<lparr>api_getState = get_prop store ''getState'', api_dispatch = ApiDispatch\<rparr> mws w1
             = Some (Inr chain, w2)
        \<and> compose_chain sem (call sem Thrower fuel) chain (get_prop store ''dispatch'') w2
             = Some (Inr (e_dispatch_var r), w')"
    using h(1,2,3) by blast
qed

theorem applyMiddleware_dispatch_witness:
  "applyMiddleware ex_eager_semantics 2 [''logger'', ''thunk''] ex_createStore () []
     = Some (Inl dispatching_error, [])
   \<and> applyMiddleware ex_semantics 2 [''logger'', ''thunk''] ex_createStore () [] =
       Some (Inr \<lparr>e_store = spread_with_dispatch ex_semantics ex_base_store ex_dispatch,
                  e_dispatch_var = ex_dispatch\<rparr>, [])
   \<and> call ex_semantics ex_dispatch 8 ApiDispatch ''async'' []
       = call ex_semantics ex_dispatch 7 ex_dispatch ''async'' []
   \<and> call ex_semantics ex_dispatch 7 ex_dispatch ''async'' []
       = Some (Inr ''done'', [''logger saw async'', ''logger saw done'', ''thunk saw done'',
                              ''reduced done''])"
proof -
  have cs: "ex_createStore () [] = (Inr ex_base_store, [])"
    by (simp add: ex_createStore_def)
  have eager: "dispatches_at_init ex_eager_semantics ''logger'' ''INIT'' ''logger''"
    by (simp add: dispatches_at_init_def ex_eager_semantics_def)
  have thrown: "applyMiddleware ex_eager_semantics 2 [''logger'', ''thunk''] ex_createStore () []
     = Some (Inl dispatching_error, [])"
    using applyMiddleware_dispatch[where sem=ex_eager_semantics and m="''logger''"
        and a="''INIT''" and c="''logger''" and createStore=ex_createStore and args="()"
        and w="[]" and store=ex_base_store and ?w1.0="[]" and n=0 and ms="[''thunk'']",
        THEN conjunct2, THEN conjunct1] eager cs
    by (simp add: eval_nat_numeral)
  have d: "foldr Handler (map id [''logger'', ''thunk'']) (get_prop ex_base_store ''dispatch'')
      = ex_dispatch"
    by (simp add: ex_dispatch_def get_prop_def ex_base_store_def)
  have run: "applyMiddleware ex_semantics 2 [''logger'', ''thunk''] ex_createStore () [] =
       Some (Inr \<lparr>e_store = spread_with_dispatch ex_semantics ex_base_store ex_dispatch,
                  e_dispatch_var = ex_dispatch\<rparr>, [])"
    using applyMiddleware_standard[where createStore=ex_createStore and args="()"
        and w="[]" and fuel=2 and mws="[''logger'', ''thunk'']", OF ex_standard cs]
    unfolding d .
  have later: "call ex_semantics ex_dispatch 8 ApiDispatch ''async'' []
       = call ex_semantics ex_dispatch 7 ex_dispatch ''async'' []"
    using applyMiddleware_dispatch[where sem=ex_semantics and createStore=ex_createStore
        and args="()" and w="[]" and fuel=2 and mws="[''logger'', ''thunk'']" and w'="[]"
        and r="\<lparr>e_store = spread_with_dispatch ex_semantics ex_base_store ex_dispatch,
                 e_dispatch_var = ex_dispatch\<rparr>" and n=7 and a="''async''" and u="[]",
        THEN conjunct2, THEN conjunct2] run
    by (simp add: eval_nat_numeral)
  have result: "call ex_semantics ex_dispatch 7 ex_dispatch ''async'' []
       = Some (Inr ''done'', [''logger saw async'', ''logger saw done'', ''thunk saw done'',
                              ''reduced done''])"
    by (simp add: ex_semantics_def ex_dispatch_def eval_nat_numeral)
  from thrown run later result show ?thesis by blast
qed

section \<open>Properties of use\<close>

lemma splice_layer_eq:
  "splice_layer L self path a W =
     W\<lparr>w_layers := (w_layers W)
          (a := setPrefix_if L (ro_prefix (r_opts (w_routers W self)))
                  (setPrefix_if L path (w_layers W a))),
       w_routers := (w_routers W)
          (self := (w_routers W self)\<lparr>r_stack := r_stack (w_routers W self) @ [a]\<rparr>)\<rparr>"
  by (simp add: splice_layer_def Let_def)

lemma funpow_count_step:
  "(\<lambda>x. (m ^^ count_list as x) ((f(a := m (f a))) x)) = (\<lambda>x. (m ^^ count_list (a # as) x) (f x))"
  by (rule ext) (simp add: funpow_swap1)

lemma splice_fold_routers:
  "w_routers (fold (splice_layer L self path) as W) =
     (w_routers W)(self := (w_routers W self)\<lparr>r_stack := r_stack (w_routers W self) @ as\<rparr>)"
proof (induction as arbitrary: W)
  case Nil
  show ?case by simp
next
  case (Cons a as)
  let ?W1 = "splice_layer L self path a W"
  have "w_routers (fold (splice_layer L self path) (a # as) W) =
      w_routers (fold (splice_layer L self path) as ?W1)"
    by simp
  also have "\<dots> = (w_routers ?W1)
      (self := (w_routers ?W1 self)\<lparr>r_stack := r_stack (w_routers ?W1 self) @ as\<rparr>)"
    by (rule Cons.IH)
  also have "\<dots> = (w_routers W)
      (self := (w_routers W self)\<lparr>r_stack := r_stack (w_routers W self) @ a # as\<rparr>)"
    by (simp add: splice_layer_eq)
  finally show ?case .
qed

lemma splice_fold_fresh:
  "w_fresh (fold (splice_layer L self path) as W) = w_fresh W"
  by (induction as arbitrary: W) (simp_all add: splice_layer_eq)

lemma splice_fold_layers:
  "w_layers (fold (splice_layer L self path) as W) =
     (\<lambda>x. ((\<lambda>l. setPrefix_if L (ro_prefix (r_opts (w_routers W self)))
                    (setPrefix_if L path l)) ^^ count_list as x) (w_layers W x))"
proof (induction as arbitrary: W)
  case Nil
  show ?case by simp
next
  case (Cons a as)
  let ?W1 = "splice_layer L self path a W"
  let ?m = "\<lambda>l. setPrefix_if L (ro_prefix (r_opts (w_routers W self))) (setPrefix_if L path l)"
  have p: "ro_prefix (r_opts (w_routers ?W1 self)) = ro_prefix (r_opts (w_routers W self))"
    by (simp add: splice_layer_eq)
  have l: "w_layers ?W1 = (w_layers W)(a := ?m (w_layers W a))"
    by (simp add: splice_layer_eq)
  have "w_layers (fold (splice_layer L self path) (a # as) W) =
      w_layers (fold (splice_layer L self path) as ?W1)"
    by simp
  also have "\<dots> = (\<lambda>x. ((\<lambda>l. setPrefix_if L (ro_prefix (r_opts (w_routers ?W1 self)))
                    (setPrefix_if L path l)) ^^ count_list as x) (w_layers ?W1 x))"
    by (rule Cons.IH)
  also have "\<dots> = (\<lambda>x. (?m ^^ count_list (a # as) x) (w_layers W x))"
    unfolding p l by (rule funpow_count_step[where m="?m"])
  finally show ?case .
qed

lemma layer_param_fold_layers:
  "w_layers (fold (layer_param_at L key mw) as W) =
     (\<lambda>x. (Layer_param L key mw ^^ count_list as x) (w_layers W x))"
proof (induction as arbitrary: W)
  case Nil
  show ?case by simp
next
  case (Cons a as)
  let ?W1 = "layer_param_at L key mw a W"
  have l: "w_layers ?W1 = (w_layers W)(a := Layer_param L key mw (w_layers W a))"
    by (simp add: layer_param_at_def)
  have "w_layers (fold (layer_param_at L key mw) (a # as) W) =
      w_layers (fold (layer_param_at L key mw) as ?W1)"
    by simp
  also have "\<dots> = (\<lambda>x. (Layer_param L key mw ^^ count_list as x) (w_layers ?W1 x))"
    by (rule Cons.IH)
  also have "\<dots> = (\<lambda>x. (Layer_param L key mw ^^ count_list (a # as) x) (w_layers W x))"
    unfolding l by (rule funpow_count_step)
  finally show ?case .
qed

lemma layer_param_fold_routers:
  "w_routers (fold (layer_param_at L key mw) as W) = w_routers W"
  by (induction as arbitrary: W) (simp_all add: layer_param_at_def)

lemma layer_param_fold_fresh:
  "w_fresh (fold (layer_param_at L key mw) as W) = w_fresh W"
  by (induction as arbitrary: W) (simp_all add: layer_param_at_def)

lemma Router_param_layers:
  "w_layers (Router_param L s key mw W) =
     (\<lambda>x. (Layer_param L key mw ^^ count_list (r_stack (w_routers W s)) x) (w_layers W x))"
  by (simp add: Router_param_def Let_def layer_param_fold_layers)

lemma Router_param_routers:
  "w_routers (Router_param L s key mw W) =
     (w_routers W)
       (s := (w_routers W s)\<lparr>r_params := AList.update key mw (r_params (w_routers W s))\<rparr>)"
  by (simp add: Router_param_def Let_def layer_param_fold_routers)

lemma Router_param_fresh:
  "w_fresh (Router_param L s key mw W) = w_fresh W"
  by (simp add: Router_param_def Let_def layer_param_fold_fresh)

lemma params_fold_routers:
  "w_routers (fold (\<lambda>(key, mw) W'. Router_param L s key mw W') ps W) =
     (w_routers W)
       (s := (w_routers W s)
          \<lparr>r_params := fold (\<lambda>(key, mw). AList.update key mw) ps (r_params (w_routers W s))\<rparr>)"
proof (induction ps arbitrary: W)
  case Nil
  show ?case by simp
next
  case (Cons p ps)
  obtain key mw where p: "p = (key, mw)" by (cases p)
  let ?W1 = "Router_param L s key mw W"
  have "w_routers (fold (\<lambda>(key, mw) W'. Router_param L s key mw W') (p # ps) W) =
      w_routers (fold (\<lambda>(key, mw) W'. Router_param L s key mw W') ps ?W1)"
    by (simp add: p)
  also have "\<dots> = (w_routers ?W1)
       (s := (w_routers ?W1 s)
          \<lparr>r_params := fold (\<lambda>(key, mw). AList.update key mw) ps (r_params (w_routers ?W1 s))\<rparr>)"
    by (rule Cons.IH)
  also have "\<dots> = (w_routers W)
       (s := (w_routers W s)
          \<lparr>r_params := fold (\<lambda>(key, mw). AList.update key mw) (p # ps)
                          (r_params (w_routers W s))\<rparr>)"
    by (simp add: Router_param_routers p)
  finally show ?case .
qed

lemma params_fold_fresh:
  "w_fresh (fold (\<lambda>(key, mw) W'. Router_param L s key mw W') ps W) = w_fresh W"
  by (induction ps arbitrary: W) (simp_all add: Router_param_fresh split: prod.splits)

lemma params_fold_layers:
  "w_layers (fold (\<lambda>(key, mw) W'. Router_param L s key mw W') ps W) =
     (\<lambda>x. fold (\<lambda>(key, mw). Layer_param L key mw ^^ count_list (r_stack (w_routers W s)) x)
             ps (w_layers W x))"
proof (induction ps arbitrary: W)
  case Nil
  show ?case by simp
next
  case (Cons p ps)
  obtain key mw where p: "p = (key, mw)" by (cases p)
  let ?W1 = "Router_param L s key mw W"
  have st: "r_stack (w_routers ?W1 s) = r_stack (w_routers W s)"
    by (simp add: Router_param_routers)
  have "w_layers (fold (\<lambda>(key, mw) W'. Router_param L s key mw W') (p # ps) W) =
      w_layers (fold (\<lambda>(key, mw) W'. Router_param L s key mw W') ps ?W1)"
    by (simp add: p)
  also have "\<dots> = (\<lambda>x. fold (\<lambda>(key, mw). Layer_param L key mw ^^
                                count_list (r_stack (w_routers ?W1 s)) x)
             ps (w_layers ?W1 x))"
    by (rule Cons.IH)
  also have "\<dots> = (\<lambda>x. fold (\<lambda>(key, mw). Layer_param L key mw ^^
                                count_list (r_stack (w_routers W s)) x)
             (p # ps) (w_layers W x))"
    unfolding st by (simp add: Router_param_layers p)
  finally show ?case .
qed

lemma map_of_fold_update:
  "map_of (fold (\<lambda>(key, mw). AList.update key mw) ps al) = map_of al ++ map_of (rev ps)"
proof (induction ps arbitrary: al)
  case Nil
  show ?case by simp
next
  case (Cons p ps)
  obtain key mw where p: "p = (key, mw)" by (cases p)
  have "map_of (fold (\<lambda>(key, mw). AList.update key mw) (p # ps) al) =
      map_of (fold (\<lambda>(key, mw). AList.update key mw) ps (AList.update key mw al))"
    by (simp add: p)
  also have "\<dots> = map_of (AList.update key mw al) ++ map_of (rev ps)"
    by (rule Cons.IH)
  also have "\<dots> = (map_of al)(key \<mapsto> mw) ++ map_of (rev ps)"
    by (simp only: update_conv')
  also have "\<dots> = map_of al ++ map_of (rev (p # ps))"
    by (rule ext) (simp add: p map_add_def split: option.splits)
  finally show ?case .
qed

lemma use_routes_unfold:
  "use_middleware L self path hasPath (Routes s) W =
     fold (\<lambda>(key, mw) W'. Router_param L s key mw W') (r_params (w_routers W self))
       (fold (splice_layer L self path) (r_stack (w_routers W s)) W)"
  by (simp add: use_middleware_def Let_def splice_fold_routers)

text \<open>
  Claim C5. When \<^verbatim>\<open>use\<close> meets the dispatch function of a sub-router \<open>s\<close>, the mounting
  router's stack becomes its old stack followed by the sub-router's stack: the same
  addresses, in the same order. Each layer of the store has then had, once for every
  time its address stands in the sub-router's stack, \<^verbatim>\<open>setPrefix\<close> with the mount path
  (if \<^verbatim>\<open>path\<close> is truthy: a path was given and is not the empty string) and after it
  \<^verbatim>\<open>setPrefix\<close> with the mounting router's prefix (if that is truthy), and after these
  the sub-router's \<^verbatim>\<open>param\<close> for every param handler of the mounting router, in the
  order of its keys. The sub-router's param handlers are its old ones overridden by
  those of the mounting router (\<open>rev\<close>: an object has each key once, and were a key
  listed twice the later entry would win). No layer is made, and \<^verbatim>\<open>use\<close> with just that
  argument is this step.
\<close>

theorem use_mounts_router:
  "let W' = use_middleware L self path hasPath (Routes s) W;
       sub = r_stack (w_routers W s);
       prefix = ro_prefix (r_opts (w_routers W self));
       params = r_params (w_routers W self)
   in r_stack (w_routers W' self) = r_stack (w_routers W self) @ sub
    \<and> r_stack (w_routers W' s) = (if s = self then sub @ sub else sub)
    \<and> (\<forall>a. w_layers W' a =
          fold (\<lambda>(key, mw). Layer_param L key mw ^^ count_list (r_stack (w_routers W' s)) a)
            params
            (((\<lambda>l. setPrefix_if L prefix (setPrefix_if L path l)) ^^ count_list sub a)
               (w_layers W a)))
    \<and> map_of (r_params (w_routers W' s)) =
        map_of (r_params (w_routers W s)) ++ map_of (rev params)
    \<and> w_fresh W' = w_fresh W
    \<and> Router_use L self (UsePath p) [Routes s] W =
        use_middleware L self (Some p) True (Routes s) W
    \<and> Router_use L self NoPath [Routes s] W = use_middleware L self None False (Routes s) W"
proof -
  let ?W1 = "fold (splice_layer L self path) (r_stack (w_routers W s)) W"
  let ?W' = "use_middleware L self path hasPath (Routes s) W"
  have W': "?W' = fold (\<lambda>(key, mw) W'. Router_param L s key mw W')
      (r_params (w_routers W self)) ?W1"
    by (rule use_routes_unfold)
  have r1: "w_routers ?W1 = (w_routers W)
      (self := (w_routers W self)
         \<lparr>r_stack := r_stack (w_routers W self) @ r_stack (w_routers W s)\<rparr>)"
    by (rule splice_fold_routers)
  have stack1: "r_stack (w_routers ?W1 s) =
      (if s = self then r_stack (w_routers W s) @ r_stack (w_routers W s)
       else r_stack (w_routers W s))"
    by (simp add: r1)
  have a: "r_stack (w_routers ?W' self) = r_stack (w_routers W self) @ r_stack (w_routers W s)"
    unfolding W' params_fold_routers by (simp add: r1)
  have b: "r_stack (w_routers ?W' s) =
      (if s = self then r_stack (w_routers W s) @ r_stack (w_routers W s)
       else r_stack (w_routers W s))"
    unfolding W' params_fold_routers by (simp add: r1)
  have c: "\<forall>a. w_layers ?W' a =
      fold (\<lambda>(key, mw). Layer_param L key mw ^^ count_list (r_stack (w_routers ?W' s)) a)
        (r_params (w_routers W self))
        (((\<lambda>l. setPrefix_if L (ro_prefix (r_opts (w_routers W self))) (setPrefix_if L path l)) ^^
            count_list (r_stack (w_routers W s)) a) (w_layers W a))"
    unfolding b unfolding W' params_fold_layers stack1 splice_fold_layers by simp
  have d: "map_of (r_params (w_routers ?W' s)) =
      map_of (r_params (w_routers W s)) ++ map_of (rev (r_params (w_routers W self)))"
    unfolding W' params_fold_routers by (simp add: r1 map_of_fold_update)
  have e: "w_fresh ?W' = w_fresh W"
    unfolding W' by (simp add: params_fold_fresh splice_fold_fresh)
  have f: "Router_use L self (UsePath p) [Routes s] W =
        use_middleware L self (Some p) True (Routes s) W"
    by simp
  have g: "Router_use L self NoPath [Routes s] W = use_middleware L self None False (Routes s) W"
    by simp
  from a b c d e f g show ?thesis
    unfolding Let_def by blast
qed

theorem use_mounts_router_witness:
  "r_stack (w_routers (use_middleware ex_proto 0 (Some ''/forums/:fid/posts'') True (Routes 1)
      ex_world) 0) = [0, 1]
   \<and> l_path (w_layers (use_middleware ex_proto 0 (Some ''/forums/:fid/posts'') True (Routes 1)
      ex_world) 1) = ''/api/forums/:fid/posts/:pid''
   \<and> l_paramNames (w_layers (use_middleware ex_proto 0 (Some ''/forums/:fid/posts'') True
      (Routes 1) ex_world) 1) = [''fid'']
   \<and> map_of (r_params (w_routers (use_middleware ex_proto 0 (Some ''/forums/:fid/posts'') True
      (Routes 1) ex_world) 1)) ''fid'' = Some ex_loader"
  using use_mounts_router[where L=ex_proto and self=0 and path="Some ''/forums/:fid/posts''"
      and hasPath=True and s=1 and W=ex_world, unfolded Let_def]
  by (simp add: w_defs setPrefix_if_def)

lemma use_fn_unfold:
  "use_middleware L self path hasPath (Fn f) W =
     (let router = w_routers W self;
          layer = Layer_new L (or_string path ''(.*)'') [] [f]
                    \<lparr>lo_end = False, lo_name = None,
                     lo_sensitive = ro_sensitive (r_opts router),
                     lo_strict = ro_strict (r_opts router),
                     lo_prefix = or_string (ro_prefix (r_opts router)) '''',
                     lo_ignoreCaptures = Some (\<not> hasPath)\<rparr>
      in W\<lparr>w_layers := (w_layers W)
             (w_fresh W := attach_params L (r_params router)
                             (setPrefix_if L (ro_prefix (r_opts router)) layer)),
           w_routers := (w_routers W)
             (self := router\<lparr>r_stack := r_stack router @ [w_fresh W]\<rparr>),
           w_fresh := Suc (w_fresh W)\<rparr>)"
  by (simp add: use_middleware_def Router_register_def register_path_def Let_def or_string_def)

text \<open>
  Claim C8. \<^verbatim>\<open>use\<close> with an array of paths (whose first element is a string) is \<^verbatim>\<open>use\<close>
  with each path of the array in turn, with the same middlewares. \<^verbatim>\<open>use\<close> with one path,
  or with none, handles its middlewares in order; and handling a plain middleware makes
  one new layer, built by \<^verbatim>\<open>new Layer\<close> from the path given or, if none was given (or
  the empty string), \<^verbatim>\<open>(.*)\<close>, from an empty method list, from that middleware, and from
  options with \<^verbatim>\<open>end\<close> false and \<^verbatim>\<open>ignoreCaptures\<close> true exactly when no path string was
  given; the layer then gets the router's prefix and param handlers as \<^verbatim>\<open>register\<close>
  gives them to every layer, and its address is pushed on the router's stack.
\<close>

theorem use_registers_middleware:
  "Router_use L self (UsePaths (p # ps)) middleware W =
     fold (\<lambda>q W'. Router_use L self (UsePath q) middleware W') (p # ps) W
 \<and> Router_use L self (UsePath q) middleware W =
     fold (use_middleware L self (Some q) True) middleware W
 \<and> Router_use L self NoPath middleware W =
     fold (use_middleware L self None False) middleware W
 \<and> use_middleware L self path hasPath (Fn f) W =
     (let router = w_routers W self;
          layer = Layer_new L (case path of
                                 None \<Rightarrow> ''(.*)''
                               | Some s \<Rightarrow> if s \<noteq> [] then s else ''(.*)'') [] [f]
                    \<lparr>lo_end = False, lo_name = None,
                     lo_sensitive = ro_sensitive (r_opts router),
                     lo_strict = ro_strict (r_opts router),
                     lo_prefix = or_string (ro_prefix (r_opts router)) '''',
                     lo_ignoreCaptures = Some (\<not> hasPath)\<rparr>
      in W\<lparr>w_layers := (w_layers W)
             (w_fresh W := attach_params L (r_params router)
                             (setPrefix_if L (ro_prefix (r_opts router)) layer)),
           w_routers := (w_routers W)
             (self := router\<lparr>r_stack := r_stack router @ [w_fresh W]\<rparr>),
           w_fresh := Suc (w_fresh W)\<rparr>)"
proof (intro conjI)
  show "Router_use L self (UsePaths (p # ps)) middleware W =
     fold (\<lambda>q W'. Router_use L self (UsePath q) middleware W') (p # ps) W"
    by (rule Router_use.simps(1))
  show "Router_use L self (UsePath q) middleware W =
     fold (use_middleware L self (Some q) True) middleware W"
    by (rule Router_use.simps(3))
  show "Router_use L self NoPath middleware W =
     fold (use_middleware L self None False) middleware W"
    by (rule Router_use.simps(4))
qed (simp add: use_fn_unfold or_string_def Let_def)

theorem use_registers_middleware_witness:
  "r_stack (w_routers (Router_use ex_proto 0 NoPath [Fn (ex_handler ''log'')] ex_world) 0) = [2]
   \<and> l_path (w_layers (Router_use ex_proto 0 NoPath [Fn (ex_handler ''log'')] ex_world) 2)
       = ''/api(.*)''
   \<and> l_methods (w_layers (Router_use ex_proto 0 NoPath [Fn (ex_handler ''log'')] ex_world) 2)
       = []
   \<and> lo_end (l_opts (w_layers (Router_use ex_proto 0 NoPath [Fn (ex_handler ''log'')]
        ex_world) 2)) = False
   \<and> lo_ignoreCaptures (l_opts (w_layers (Router_use ex_proto 0 NoPath
        [Fn (ex_handler ''log'')] ex_world) 2)) = Some True
   \<and> lo_ignoreCaptures (l_opts (w_layers (Router_use ex_proto 0 (UsePath ''/x'')
        [Fn (ex_handler ''log'')] ex_world) 2)) = Some False
   \<and> r_stack (w_routers (Router_use ex_proto 0 (UsePaths [''/a'', ''/b''])
        [Fn (ex_handler ''log'')] ex_world) 0) = [2, 3]"
proof -
  note step = use_registers_middleware[where L=ex_proto and self=0, THEN conjunct2,
      THEN conjunct2, THEN conjunct2]
  note none = use_registers_middleware[where L=ex_proto and self=0
      and middleware="[Fn (ex_handler ''log'')]" and W=ex_world,
      THEN conjunct2, THEN conjunct2, THEN conjunct1]
  note one = use_registers_middleware[where L=ex_proto and self=0 and q="''/x''"
      and middleware="[Fn (ex_handler ''log'')]" and W=ex_world,
      THEN conjunct2, THEN conjunct1]
  note many = use_registers_middleware[where L=ex_proto and self=0 and p="''/a''"
      and ps="[''/b'']" and middleware="[Fn (ex_handler ''log'')]" and W=ex_world,
      THEN conjunct1]
  show ?thesis
    unfolding none one many
    apply (simp add: step Let_def)
    apply (simp add: w_defs setPrefix_if_def attach_params_def or_string_def)
    done
qed

end
